theory Spec2Isabelle
  imports Complex_Main "HOL-Library.Code_Target_Nat"
begin

section \<open>JavaScript values used by script.js\<close>

text \<open>
  Exceptions are values: a computation that can throw has type \<open>js_error + 'a\<close>, with
  \<open>Inl\<close> for the thrown condition. An \<^verbatim>\<open>async\<close> function is modelled by the value its
  promise settles to: \<open>Inr v\<close> when it fulfils with \<open>v\<close>, \<open>Inl e\<close> when it rejects with \<open>e\<close>.
\<close>

datatype js_error = TypeError string | SyntaxError string | Error string

definition try_catch :: "(js_error + 'a) \<Rightarrow> (js_error \<Rightarrow> js_error + 'a) \<Rightarrow> js_error + 'a" where
  "try_catch body handler = (case body of Inl e \<Rightarrow> handler e | Inr v \<Rightarrow> Inr v)"

definition bind_js :: "(js_error + 'a) \<Rightarrow> ('a \<Rightarrow> js_error + 'b) \<Rightarrow> js_error + 'b" where
  "bind_js m f = (case m of Inl e \<Rightarrow> Inl e | Inr v \<Rightarrow> f v)"

subsection \<open>Numbers\<close>

text \<open>
  A coordinate is an IEEE double. Comparison, \<^verbatim>\<open>Math.min\<close> and \<^verbatim>\<open>Math.max\<close> never round,
  so the finite doubles are modelled by the rationals they denote; the two infinities and
  NaN are values of their own, since \<^verbatim>\<open>parseFloat\<close> can produce them.
\<close>

datatype jsnum = NaN | NegInf | Fin rat | PosInf

fun js_le :: "jsnum \<Rightarrow> jsnum \<Rightarrow> bool" where
  "js_le NaN _ = False"
| "js_le _ NaN = False"
| "js_le NegInf _ = True"
| "js_le _ PosInf = True"
| "js_le (Fin a) (Fin b) = (a \<le> b)"
| "js_le _ _ = False"

fun js_lt :: "jsnum \<Rightarrow> jsnum \<Rightarrow> bool" where
  "js_lt NaN _ = False"
| "js_lt _ NaN = False"
| "js_lt (Fin a) (Fin b) = (a < b)"
| "js_lt NegInf NegInf = False"
| "js_lt NegInf _ = True"
| "js_lt PosInf _ = False"
| "js_lt _ PosInf = True"
| "js_lt _ _ = False"

text \<open>\<^verbatim>\<open>Math.min\<close> and \<^verbatim>\<open>Math.max\<close> return NaN as soon as one argument is NaN.\<close>

fun Math_min :: "jsnum \<Rightarrow> jsnum \<Rightarrow> jsnum" where
  "Math_min NaN _ = NaN"
| "Math_min _ NaN = NaN"
| "Math_min a b = (if js_le a b then a else b)"

fun Math_max :: "jsnum \<Rightarrow> jsnum \<Rightarrow> jsnum" where
  "Math_max NaN _ = NaN"
| "Math_max _ NaN = NaN"
| "Math_max a b = (if js_le a b then b else a)"

text \<open>\<^verbatim>\<open>Math.round\<close> rounds to the nearest integer, a tie towards \<open>+\<infinity>\<close>.\<close>

definition Math_round :: "rat \<Rightarrow> int" where
  "Math_round x = \<lfloor>x + 1 / 2\<rfloor>"

subsection \<open>Strings of numbers\<close>

definition digit_char :: "nat \<Rightarrow> char" where
  "digit_char d = ''0123456789'' ! d"

fun show_nat :: "nat \<Rightarrow> string" where
  "show_nat n = (if n < 10 then [digit_char n] else show_nat (n div 10) @ [digit_char (n mod 10)])"

declare show_nat.simps [simp del]

definition show_int :: "int \<Rightarrow> string" where
  "show_int i = (if i < 0 then CHR ''-'' # show_nat (nat (- i)) else show_nat (nat i))"

text \<open>\<^verbatim>\<open>s.padStart(2, "0")\<close>: zeros in front until the string has two characters.\<close>

definition padStart2 :: "string \<Rightarrow> string" where
  "padStart2 s = replicate (2 - length s) CHR ''0'' @ s"

text \<open>
  \<^verbatim>\<open>x.toFixed(2)\<close> for \<open>0 \<le> x\<close>: with \<open>n\<close> the integer for which \<open>n / 100 - x\<close> is closest to
  zero (the larger one on a tie), the digits of \<open>n\<close> with a point before the last two.
\<close>

definition toFixed2 :: "rat \<Rightarrow> string" where
  "toFixed2 x =
     (let n = nat \<lfloor>x * 100 + 1 / 2\<rfloor>
      in show_nat (n div 100) @ ''.'' @ [digit_char (n div 10 mod 10), digit_char (n mod 10)])"

section \<open>Utilities (script.js, lines 12-34)\<close>

definition clamp :: "jsnum \<Rightarrow> jsnum \<Rightarrow> jsnum \<Rightarrow> jsnum" where
  "clamp v lo hi = Math_max lo (Math_min hi v)"

text \<open>
  The argument of \<^verbatim>\<open>display\<close> is a JSON-like value or \<^verbatim>\<open>undefined\<close>. A number is any
  double: NaN, an infinity, or a finite one.
\<close>

datatype jsval =
    Undefined
  | Null
  | Bool bool
  | Num jsnum
  | Str string
  | Arr "jsval list"
  | Obj "(string \<times> jsval) list"

fun join :: "string \<Rightarrow> string list \<Rightarrow> string" where
  "join sep [] = []"
| "join sep [s] = s"
| "join sep (s # t # ts) = s @ sep @ join sep (t # ts)"

text \<open>
  The string of a number, as the language defines it. NaN and the infinities print
  their names. An integer of absolute value at most \<open>2\<^sup>5\<^sup>3\<close> prints its decimal digits
  (zero prints \<^verbatim>\<open>"0"\<close>, whatever its sign). For every other finite double (a fraction, or an
  integer beyond \<open>2\<^sup>5\<^sup>3\<close>) the language prints the shortest digits that read back as
  the same double, in exponent form from \<open>10\<^sup>2\<^sup>1\<close> on; that part of the built-in is
  not computed here but taken as the parameter \<open>shortest\<close>.
\<close>

definition Number_toString :: "(rat \<Rightarrow> string) \<Rightarrow> jsnum \<Rightarrow> string" where
  "Number_toString shortest x =
     (case x of
        NaN \<Rightarrow> ''NaN''
      | PosInf \<Rightarrow> ''Infinity''
      | NegInf \<Rightarrow> ''-Infinity''
      | Fin q \<Rightarrow>
          if of_int \<lfloor>q\<rfloor> = q \<and> \<bar>q\<bar> \<le> 9007199254740992 then show_int \<lfloor>q\<rfloor>
          else shortest q)"

text \<open>
  String conversion as a template literal performs it. An array is its elements joined
  by commas, \<^verbatim>\<open>null\<close> and \<^verbatim>\<open>undefined\<close> elements contributing the empty string.
\<close>

fun ToString :: "(rat \<Rightarrow> string) \<Rightarrow> jsval \<Rightarrow> string" where
  "ToString shortest Undefined = ''undefined''"
| "ToString shortest Null = ''null''"
| "ToString shortest (Bool b) = (if b then ''true'' else ''false'')"
| "ToString shortest (Num x) = Number_toString shortest x"
| "ToString shortest (Str s) = s"
| "ToString shortest (Arr vs) =
     join '','' (map (\<lambda>v. if v = Undefined \<or> v = Null then [] else ToString shortest v) vs)"
| "ToString shortest (Obj ps) = ''[object Object]''"

text \<open>
  \<^verbatim>\<open>display(value, suffix)\<close>; its first argument here is the \<open>shortest\<close> of
  \<open>Number_toString\<close>, which the template literal uses when the value is a number.
\<close>

definition display :: "(rat \<Rightarrow> string) \<Rightarrow> jsval \<Rightarrow> string \<Rightarrow> string" where
  "display shortest v suffix =
     (if v = Null \<or> v = Undefined \<or> v = Str [] \<or> v = Arr [] then ''-''
      else ToString shortest v @ suffix)"

record coords =
  latitude :: jsnum
  longitude :: jsnum

definition normalizeCoordsMaybeSwap :: "jsnum \<Rightarrow> jsnum \<Rightarrow> coords" where
  "normalizeCoordsMaybeSwap lat lon =
     (let looksFlipped = ((js_lt lat (Fin (- 90)) \<or> js_lt (Fin 90) lat)
                          \<and> js_le (Fin (- 180)) lon \<and> js_le lon (Fin 180))
      in if looksFlipped
         then \<lparr>latitude = clamp lon (Fin (- 90)) (Fin 90),
               longitude = clamp lat (Fin (- 180)) (Fin 180)\<rparr>
         else \<lparr>latitude = clamp lat (Fin (- 90)) (Fin 90),
               longitude = clamp lon (Fin (- 180)) (Fin 180)\<rparr>)"

section \<open>Optional fields and truthiness\<close>

text \<open>
  A field of a JSON record that is absent reads as \<^verbatim>\<open>undefined\<close>: \<open>None\<close>. A string is
  truthy when it is not empty, a number when it is not zero.
\<close>

definition truthy_str :: "string \<Rightarrow> bool" where
  "truthy_str s = (s \<noteq> [])"

definition truthy_num :: "'a::zero \<Rightarrow> bool" where
  "truthy_num x = (x \<noteq> 0)"

definition truthy_opt :: "('a \<Rightarrow> bool) \<Rightarrow> 'a option \<Rightarrow> bool" where
  "truthy_opt t a = (case a of None \<Rightarrow> False | Some x \<Rightarrow> t x)"

text \<open>\<^verbatim>\<open>a || b\<close> is \<open>a\<close> when \<open>a\<close> is truthy and \<open>b\<close>, whatever it is, otherwise.\<close>

definition js_or :: "('a \<Rightarrow> bool) \<Rightarrow> 'a option \<Rightarrow> 'a option \<Rightarrow> 'a option" where
  "js_or t a b = (if truthy_opt t a then a else b)"

text \<open>\<^verbatim>\<open>a || d\<close> with a literal \<open>d\<close> of the same type.\<close>

definition js_or_default :: "('a \<Rightarrow> bool) \<Rightarrow> 'a option \<Rightarrow> 'a \<Rightarrow> 'a" where
  "js_or_default t a d = (case a of None \<Rightarrow> d | Some x \<Rightarrow> if t x then x else d)"

text \<open>\<^verbatim>\<open>xs[0]\<close> is \<^verbatim>\<open>undefined\<close> on the empty array.\<close>

definition index0 :: "'a list \<Rightarrow> 'a option" where
  "index0 xs = (case xs of [] \<Rightarrow> None | x # _ \<Rightarrow> Some x)"

text \<open>\<^verbatim>\<open>xs.filter(Boolean)\<close> on an array of optional strings.\<close>

definition filter_Boolean :: "string option list \<Rightarrow> string list" where
  "filter_Boolean xs = concat (map (\<lambda>a. case a of None \<Rightarrow> [] | Some s \<Rightarrow> if truthy_str s then [s] else []) xs)"

text \<open>
  \<^verbatim>\<open>s.toLowerCase()\<close> on the letters A to Z. No character outside ASCII lower-cases to a
  letter of the word "actinopterygii", the only string the result is compared with.
\<close>

definition lower_char :: "char \<Rightarrow> char" where
  "lower_char c =
     (case map_of (zip ''ABCDEFGHIJKLMNOPQRSTUVWXYZ'' ''abcdefghijklmnopqrstuvwxyz'') c of
        None \<Rightarrow> c | Some l \<Rightarrow> l)"

definition toLowerCase :: "string \<Rightarrow> string" where
  "toLowerCase s = map lower_char s"

section \<open>Sets and objects in insertion order\<close>

text \<open>
  A \<^verbatim>\<open>Set\<close> keeps its elements in the order of their first insertion;
  \<^verbatim>\<open>Array.from(new Set(xs))\<close> lists them in that order.
\<close>

definition Set_add :: "'a list \<Rightarrow> 'a \<Rightarrow> 'a list" where
  "Set_add s x = (if x \<in> set s then s else s @ [x])"

definition new_Set :: "'a list \<Rightarrow> 'a list" where
  "new_Set xs = foldl Set_add [] xs"

text \<open>
  The counting objects \<^verbatim>\<open>familyCounts\<close> and \<^verbatim>\<open>genusCounts\<close>: own properties in the
  order of their creation. Reading a missing property of the object literal \<^verbatim>\<open>{}\<close> is
  taken to give \<^verbatim>\<open>undefined\<close>, which holds for every name that is not a member of
  \<^verbatim>\<open>Object.prototype\<close> (\<open>Object_prototype_names\<close> lists those).
\<close>

type_synonym counts = "(string \<times> nat) list"

definition Object_prototype_names :: "string list" where
  "Object_prototype_names =
     [''constructor'', ''__proto__'', ''hasOwnProperty'', ''isPrototypeOf'',
      ''propertyIsEnumerable'', ''toLocaleString'', ''toString'', ''valueOf'',
      ''__defineGetter__'', ''__defineSetter__'', ''__lookupGetter__'', ''__lookupSetter__'']"

fun obj_set :: "counts \<Rightarrow> string \<Rightarrow> nat \<Rightarrow> counts" where
  "obj_set [] k v = [(k, v)]"
| "obj_set ((k', v') # ps) k v = (if k' = k then (k, v) # ps else (k', v') # obj_set ps k v)"

text \<open>\<^verbatim>\<open>obj[k] = (obj[k] || 0) + 1\<close>\<close>

definition bump :: "counts \<Rightarrow> string \<Rightarrow> counts" where
  "bump obj k = obj_set obj k (js_or_default truthy_num (map_of obj k) 0 + 1)"

text \<open>
  A property name is an array index when it is the canonical decimal form of an integer
  below \<open>2\<^sup>3\<^sup>2 - 1\<close>. \<^verbatim>\<open>Object.entries\<close> lists the array-index names first, in ascending
  numeric order, and the other names after them in creation order.
\<close>

definition digit_val :: "char \<Rightarrow> nat option" where
  "digit_val c =
     map_of [(CHR ''0'', 0), (CHR ''1'', 1), (CHR ''2'', 2), (CHR ''3'', 3), (CHR ''4'', 4),
             (CHR ''5'', 5), (CHR ''6'', 6), (CHR ''7'', 7), (CHR ''8'', 8), (CHR ''9'', 9)] c"

definition parse_nat :: "string \<Rightarrow> nat" where
  "parse_nat s = foldl (\<lambda>n c. 10 * n + (case digit_val c of None \<Rightarrow> 0 | Some d \<Rightarrow> d)) 0 s"

definition array_index :: "string \<Rightarrow> nat option" where
  "array_index s =
     (if s \<noteq> [] \<and> list_all (\<lambda>c. digit_val c \<noteq> None) s
         \<and> show_nat (parse_nat s) = s \<and> parse_nat s < 4294967295
      then Some (parse_nat s) else None)"

definition Object_entries :: "counts \<Rightarrow> (string \<times> nat) list" where
  "Object_entries obj =
     sort_key (\<lambda>(k, v). case array_index k of None \<Rightarrow> 0 | Some i \<Rightarrow> i)
       (filter (\<lambda>(k, v). array_index k \<noteq> None) obj)
     @ filter (\<lambda>(k, v). array_index k = None) obj"

text \<open>
  \<^verbatim>\<open>Object.entries(obj).sort((a,b)=>b[1]-a[1]).slice(0,k).map(([n,c])=>`${n} (${c})`)\<close>.
  \<^verbatim>\<open>Array.prototype.sort\<close> is stable: entries with equal counts keep their order.
\<close>

definition fmt_entry :: "string \<times> nat \<Rightarrow> string" where
  "fmt_entry e = fst e @ '' ('' @ show_nat (snd e) @ '')''"

definition topK :: "counts \<Rightarrow> nat \<Rightarrow> string list" where
  "topK obj k = map fmt_entry (take k (sort_key (\<lambda>e. - int (snd e)) (Object_entries obj)))"

section \<open>The network\<close>

text \<open>
  \<^verbatim>\<open>await fetch(url)\<close> either rejects or gives a response with its \<^verbatim>\<open>ok\<close> flag;
  \<^verbatim>\<open>await res.json()\<close> either rejects (the body is not JSON) or gives the parsed body.
  What the network answers to a request is an input of the model.
\<close>

datatype 'b response = Response (ok: bool) (json: "js_error + 'b")

type_synonym 'b fetched = "js_error + 'b response"

text \<open>
  The body of an occurrence endpoint, as far as the code looks at it: either it has an
  array under \<^verbatim>\<open>results\<close>, or it has not (any other JSON value, \<^verbatim>\<open>null\<close> included).
\<close>

datatype 'r occurrence_json = ResultsArray "'r list" | NoResultsArray

text \<open>\<^verbatim>\<open>Array.isArray(json?.results) ? json.results : []\<close>\<close>

definition results_of :: "'r occurrence_json \<Rightarrow> 'r list" where
  "results_of j = (case j of ResultsArray rs \<Rightarrow> rs | NoResultsArray \<Rightarrow> [])"

section \<open>Occurrence records\<close>

text \<open>
  The three fields the tables show, common to the records of both sources and to the
  normalized source-B record; then what each source adds, as far as the code reads it.
  Every element of a results array is an object; names and dates are strings, depths
  are numbers, date parts are integers.
\<close>

record occurrence =
  scientificName :: "string option"
  eventDate :: "string option"
  minimumDepthInMeters :: "rat option"

record obis_record = occurrence +
  family :: "string option"
  genus :: "string option"
  class_field :: "string option"

datatype taxon = Taxon (taxon_scientificName: "string option")

record gbif_record = occurrence +
  species :: "string option"
  genericName :: "string option"
  taxon :: "taxon option"
  day :: "int option"
  month :: "int option"
  year :: "int option"
  depth :: "rat option"
  decimalDepth :: "rat option"

section \<open>Live API fetchers (script.js, lines 71-241)\<close>

subsection \<open>fetchObisOccurrences\<close>

definition fetchObisOccurrences :: "'b fetched \<Rightarrow> js_error + 'b" where
  "fetchObisOccurrences http =
     bind_js http (\<lambda>res.
       if \<not> ok res then Inl (Error ''OBIS response not ok'')
       else json res)"

subsection \<open>fetchGbifFishOccurrences\<close>

text \<open>\<^verbatim>\<open>r.taxon?.scientificName\<close>\<close>

definition taxon_name :: "gbif_record \<Rightarrow> string option" where
  "taxon_name r = (case taxon r of None \<Rightarrow> None | Some t \<Rightarrow> taxon_scientificName t)"

text \<open>\<^verbatim>\<open>`${n||""}`\<close> and \<^verbatim>\<open>String(n||"")\<close> for a number \<open>n\<close>\<close>

definition num_or_empty :: "int option \<Rightarrow> string" where
  "num_or_empty n = (case n of None \<Rightarrow> [] | Some i \<Rightarrow> if truthy_num i then show_int i else [])"

text \<open>
  The arrow function mapped over the results (lines 153-157). In line 155 the
  conditional operator binds weaker than \<^verbatim>\<open>||\<close>: the condition is the whole disjunction
  \<^verbatim>\<open>r.eventDate || r.day || r.month || r.year\<close>, and its true branch is the template.
\<close>

definition gbif_minimal :: "gbif_record \<Rightarrow> occurrence" where
  "gbif_minimal r =
     \<lparr>scientificName =
        js_or truthy_str
          (js_or truthy_str
            (js_or truthy_str
              (js_or truthy_str (scientificName r) (species r))
              (genericName r))
            (taxon_name r))
          None,
      eventDate =
        (if truthy_opt truthy_str (eventDate r) \<or> truthy_opt truthy_num (day r)
            \<or> truthy_opt truthy_num (month r) \<or> truthy_opt truthy_num (year r)
         then Some (num_or_empty (year r) @ ''-'' @ padStart2 (num_or_empty (month r))
                    @ ''-'' @ padStart2 (num_or_empty (day r)))
         else None),
      minimumDepthInMeters =
        js_or truthy_num
          (js_or truthy_num
            (js_or truthy_num (depth r) (minimumDepthInMeters r))
            (decimalDepth r))
          None\<rparr>"

definition fetchGbifFishOccurrences ::
  "gbif_record occurrence_json fetched \<Rightarrow> js_error + occurrence list" where
  "fetchGbifFishOccurrences http =
     try_catch
       (bind_js http (\<lambda>res.
          if \<not> ok res then Inl (Error ''GBIF response not ok'')
          else bind_js (json res) (\<lambda>j. Inr (map gbif_minimal (results_of j)))))
       (\<lambda>e. Inr [])"

subsection \<open>fetchBiodiversityFromApi\<close>

record molecular_summary =
  eDnaDiversityIndex :: string
  potentialTaxaDetected :: nat
  invasiveRisk :: string
  markerGenes :: "string list"
  topTaxa :: "string list"
  totalOccurrences :: nat
  topFamilies :: "string list"
  topGenera :: "string list"
  occurrences :: "obis_record list"

text \<open>The body of the loop of lines 172-175, on the pair of counting objects.\<close>

definition count_record :: "counts \<times> counts \<Rightarrow> obis_record \<Rightarrow> counts \<times> counts" where
  "count_record fg r =
     (let familyCounts = fst fg; genusCounts = snd fg
      in ((case family r of
             None \<Rightarrow> familyCounts
           | Some f \<Rightarrow> if truthy_str f then bump familyCounts f else familyCounts),
          (case genus r of
             None \<Rightarrow> genusCounts
           | Some g \<Rightarrow> if truthy_str g then bump genusCounts g else genusCounts)))"

text \<open>
  Lines 167-187: what the function computes from the parsed body. The quotient
  \<^verbatim>\<open>uniqueTaxa.length / 100\<close> is a double; it differs from the exact quotient by less
  than \<open>10\<^sup>-\<^sup>1\<^sup>7\<close>, so \<^verbatim>\<open>toFixed(2)\<close> prints the two decimals of the exact quotient, which
  is what \<open>toFixed2\<close> on the rational computes.
\<close>

definition biodiversity_of :: "obis_record occurrence_json \<Rightarrow> molecular_summary" where
  "biodiversity_of j =
     (let records = results_of j;
          taxa = filter_Boolean (map scientificName records);
          uniqueTaxa = new_Set taxa;
          counted = foldl count_record ([], []) records;
          familyCounts = fst counted;
          genusCounts = snd counted
      in \<lparr>eDnaDiversityIndex =
             (if length uniqueTaxa > 0
              then toFixed2 (min (of_nat (length uniqueTaxa) / 100) (95 / 100))
              else ''0.00''),
           potentialTaxaDetected = length uniqueTaxa,
           invasiveRisk = (if length uniqueTaxa > 50 then ''Moderate'' else ''Low''),
           markerGenes = [''COI'', ''16S'', ''18S''],
           topTaxa = take 5 uniqueTaxa,
           totalOccurrences = length records,
           topFamilies = topK familyCounts 3,
           topGenera = topK genusCounts 3,
           occurrences = take 20 records\<rparr>)"

definition fetchBiodiversityFromApi ::
  "obis_record occurrence_json fetched \<Rightarrow> js_error + molecular_summary option" where
  "fetchBiodiversityFromApi http =
     try_catch
       (bind_js (fetchObisOccurrences http) (\<lambda>j. Inr (Some (biodiversity_of j))))
       (\<lambda>e. Inr None)"

subsection \<open>fetchFisheriesFromApi\<close>

record fisheries_summary =
  predictedCatchIndex :: int
  dominantSpecies :: string
  habitatSuitability :: int
  advisories :: string
  totalFishOccurrences :: nat
  totalFishOccurrencesGbif :: nat
  totalFishOccurrencesCombined :: nat
  sampleSpecies :: "string list"
  fishOccurrences :: "obis_record list"
  fishOccurrencesGbif :: "occurrence list"

text \<open>
  \<^verbatim>\<open>Promise.all\<close> fulfils with all the values once every promise has fulfilled, and
  rejects as soon as one rejects. Of the promises passed to it in this program at most
  one can reject, so which rejection wins is not a question; the model takes them in
  array order.
\<close>

definition Promise_all2 :: "(js_error + 'a) \<Rightarrow> (js_error + 'b) \<Rightarrow> js_error + 'a \<times> 'b" where
  "Promise_all2 p q = bind_js p (\<lambda>a. bind_js q (\<lambda>b. Inr (a, b)))"

definition Promise_all3 ::
  "(js_error + 'a) \<Rightarrow> (js_error + 'b) \<Rightarrow> (js_error + 'c) \<Rightarrow> js_error + 'a \<times> 'b \<times> 'c" where
  "Promise_all3 p q r = bind_js p (\<lambda>a. bind_js q (\<lambda>b. bind_js r (\<lambda>c. Inr (a, b, c))))"

text \<open>\<^verbatim>\<open>r => (r.class || "").toLowerCase() === "actinopterygii"\<close>\<close>

definition is_fish :: "obis_record \<Rightarrow> bool" where
  "is_fish r = (toLowerCase (js_or_default truthy_str (class_field r) []) = ''actinopterygii'')"

text \<open>\<^verbatim>\<open>xs[0]?.scientificName\<close>\<close>

definition first_name :: "'a occurrence_scheme list \<Rightarrow> string option" where
  "first_name xs = (case index0 xs of None \<Rightarrow> None | Some r \<Rightarrow> scientificName r)"

text \<open>Lines 202-204: the combined species list, from the fish of source A and of source B.\<close>

definition combinedSpecies_of :: "obis_record list \<Rightarrow> occurrence list \<Rightarrow> string list" where
  "combinedSpecies_of obisFish gbifFish =
     (let obisSpecies = filter_Boolean (map scientificName obisFish);
          gbifSpecies = filter_Boolean (map scientificName gbifFish)
      in new_Set (obisSpecies @ gbifSpecies))"

text \<open>
  Lines 200-223. The counts are array lengths, so \<^verbatim>\<open>Math.min\<close> and \<^verbatim>\<open>Math.max\<close> are
  applied to integers. The product \<^verbatim>\<open>totalCount * 0.8\<close> is a double within \<open>10\<^sup>-\<^sup>5\<close> of
  the exact product for every array length, and the exact product is never half-way
  between two integers, so \<^verbatim>\<open>Math.round\<close> gives what \<open>Math_round\<close> gives on the rational.
\<close>

definition fisheries_of ::
  "obis_record occurrence_json \<Rightarrow> occurrence list \<Rightarrow> fisheries_summary" where
  "fisheries_of obisJson gbifFish =
     (let obisRecords = results_of obisJson;
          obisFish = filter is_fish obisRecords;
          combinedSpecies = combinedSpecies_of obisFish gbifFish;
          dominant =
            js_or_default truthy_str
              (js_or truthy_str
                (js_or truthy_str (index0 combinedSpecies) (first_name obisRecords))
                (first_name gbifFish))
              ''Unknown'';
          obisCount = length obisFish;
          gbifCount = length gbifFish;
          totalCount = obisCount + gbifCount
      in \<lparr>predictedCatchIndex = min 95 (max 20 (int totalCount * 2 + 20)),
           dominantSpecies = dominant,
           habitatSuitability = min 98 (40 + Math_round (of_nat totalCount * (8 / 10))),
           advisories =
             (if totalCount > 10 then ''Conditions favorable for small-scale fishing''
              else ''Survey area recommended''),
           totalFishOccurrences = obisCount,
           totalFishOccurrencesGbif = gbifCount,
           totalFishOccurrencesCombined = totalCount,
           sampleSpecies = take 5 combinedSpecies,
           fishOccurrences = take 20 obisFish,
           fishOccurrencesGbif = take 20 gbifFish\<rparr>)"

definition fetchFisheriesFromApi ::
  "obis_record occurrence_json fetched \<Rightarrow> gbif_record occurrence_json fetched
     \<Rightarrow> js_error + fisheries_summary option" where
  "fetchFisheriesFromApi obis_http gbif_http =
     try_catch
       (bind_js (Promise_all2 (fetchObisOccurrences obis_http) (fetchGbifFishOccurrences gbif_http))
          (\<lambda>(obisJson, gbifFish). Inr (Some (fisheries_of obisJson gbifFish))))
       (\<lambda>e. Inr None)"

subsection \<open>fetchOceanographicFromApi\<close>

text \<open>
  The hourly object, with the same field names in the response (where every array may
  be missing) and in the summary (where every array is there). A measurement is a number
  or \<^verbatim>\<open>null\<close>.
\<close>

record ('t, 'm) hourly_data =
  time :: 't
  sea_surface_temperature :: 'm
  wave_height :: 'm
  wave_direction :: 'm
  wave_period :: 'm
  swell_wave_height :: 'm
  swell_wave_direction :: 'm
  swell_wave_period :: 'm
  wind_wave_height :: 'm
  wind_wave_direction :: 'm
  wind_wave_period :: 'm

type_synonym measurements = "rat option list"

type_synonym hourly_json = "(string list option, measurements option) hourly_data"

type_synonym units_object = "(string \<times> string) list"

text \<open>
  The parsed body: \<^verbatim>\<open>null\<close>, on which \<^verbatim>\<open>json.hourly\<close> throws a TypeError, or a value whose
  \<^verbatim>\<open>hourly\<close> and \<^verbatim>\<open>hourly_units\<close> are read (each may be missing).
\<close>

datatype marine_json = JsonNull | JsonObject "hourly_json option" "units_object option"

record oceanographic_summary =
  hourly :: "(string list, measurements) hourly_data"
  units :: units_object

text \<open>\<^verbatim>\<open>json.hourly?.field || []\<close>\<close>

definition metric_or_empty :: "hourly_json option \<Rightarrow> (hourly_json \<Rightarrow> measurements option) \<Rightarrow> measurements" where
  "metric_or_empty h field =
     (case h of None \<Rightarrow> [] | Some hj \<Rightarrow> (case field hj of None \<Rightarrow> [] | Some xs \<Rightarrow> xs))"

definition oceanographic_of :: "hourly_json option \<Rightarrow> units_object option \<Rightarrow> oceanographic_summary" where
  "oceanographic_of h u =
     (let times = (case h of None \<Rightarrow> [] | Some hj \<Rightarrow> (case time hj of None \<Rightarrow> [] | Some ts \<Rightarrow> ts))
      in \<lparr>hourly =
            \<lparr>time = map (\<lambda>t. t @ ''Z'') times,
             sea_surface_temperature = metric_or_empty h sea_surface_temperature,
             wave_height = metric_or_empty h wave_height,
             wave_direction = metric_or_empty h wave_direction,
             wave_period = metric_or_empty h wave_period,
             swell_wave_height = metric_or_empty h swell_wave_height,
             swell_wave_direction = metric_or_empty h swell_wave_direction,
             swell_wave_period = metric_or_empty h swell_wave_period,
             wind_wave_height = metric_or_empty h wind_wave_height,
             wind_wave_direction = metric_or_empty h wind_wave_direction,
             wind_wave_period = metric_or_empty h wind_wave_period\<rparr>,
          units = (case u of None \<Rightarrow> [] | Some us \<Rightarrow> us)\<rparr>)"

definition fetchOceanographicFromApi ::
  "marine_json fetched \<Rightarrow> js_error + oceanographic_summary option" where
  "fetchOceanographicFromApi http =
     try_catch
       (bind_js http (\<lambda>res.
          if \<not> ok res then Inl (Error ''Open-Meteo response not ok'')
          else bind_js (json res) (\<lambda>j.
            case j of
              JsonNull \<Rightarrow> Inl (TypeError ''Cannot read properties of null (reading hourly)'')
            | JsonObject h u \<Rightarrow> Inr (Some (oceanographic_of h u)))))
       (\<lambda>e. Inr None)"

subsection \<open>getLiveOrMockData\<close>

text \<open>
  The four requests of one page render and what the network answers to each. The
  fisheries and the biodiversity fetcher each send their own source-A request.
\<close>

record network =
  marine_request :: "marine_json fetched"
  obis_request_fisheries :: "obis_record occurrence_json fetched"
  gbif_request :: "gbif_record occurrence_json fetched"
  obis_request_biodiversity :: "obis_record occurrence_json fetched"

text \<open>A field of the result is the summary, or the empty object \<^verbatim>\<open>{}\<close>.\<close>

datatype 'a domain_data = EmptyObject | Summary 'a

text \<open>\<^verbatim>\<open>x || {}\<close> for \<open>x\<close> a summary object or \<^verbatim>\<open>null\<close>\<close>

definition or_empty_object :: "'a option \<Rightarrow> 'a domain_data" where
  "or_empty_object x = (case x of None \<Rightarrow> EmptyObject | Some s \<Rightarrow> Summary s)"

record live_data =
  oceanographic :: "oceanographic_summary domain_data"
  fisheries :: "fisheries_summary domain_data"
  molecular :: "molecular_summary domain_data"

definition getLiveOrMockData :: "network \<Rightarrow> js_error + live_data" where
  "getLiveOrMockData net =
     bind_js
       (Promise_all3
          (fetchOceanographicFromApi (marine_request net))
          (fetchFisheriesFromApi (obis_request_fisheries net) (gbif_request net))
          (fetchBiodiversityFromApi (obis_request_biodiversity net)))
       (\<lambda>(oceanApi, fishApi, molApi).
          Inr \<lparr>oceanographic = or_empty_object oceanApi,
               fisheries = or_empty_object fishApi,
               molecular = or_empty_object molApi\<rparr>)"

section \<open>Ranking by count, as the specification words it\<close>

text \<open>
  A property name is ordinary when \<^verbatim>\<open>Object.entries\<close> lists it in creation order and a
  fresh object literal has no inherited member of that name.
\<close>

definition ordinary_name :: "string \<Rightarrow> bool" where
  "ordinary_name n = (array_index n = None \<and> n \<notin> set Object_prototype_names)"

text \<open>
  \<open>ranks_by_count names ranked\<close>: \<open>ranked\<close> lists every name of \<open>names\<close> once, with the
  number of its occurrences, in descending order of that number; the names that occur
  equally often stand in the order in which they are first met in \<open>names\<close>.
\<close>

definition ranks_by_count :: "string list \<Rightarrow> (string \<times> nat) list \<Rightarrow> bool" where
  "ranks_by_count names ranked =
     (distinct (map fst ranked)
      \<and> set (map fst ranked) = set names
      \<and> (\<forall>e \<in> set ranked. snd e = count_list names (fst e))
      \<and> sorted (rev (map snd ranked))
      \<and> (\<forall>k \<in> set (map snd ranked).
            map fst (filter (\<lambda>e. snd e = k) ranked)
            = filter (\<lambda>n. count_list names n = k) (rev (remdups (rev names)))))"

section \<open>Sample records\<close>

definition obis_sample :: "string \<Rightarrow> string \<Rightarrow> string \<Rightarrow> string \<Rightarrow> obis_record" where
  "obis_sample n f g c =
     \<lparr>scientificName = Some n, eventDate = None, minimumDepthInMeters = None,
      family = Some f, genus = Some g, class_field = Some c\<rparr>"

definition tuna :: obis_record where
  "tuna = obis_sample ''Thunnus albacares'' ''Scombridae'' ''Thunnus'' ''Actinopterygii''"

definition numbered_taxa :: "nat \<Rightarrow> obis_record list" where
  "numbered_taxa k = map (\<lambda>i. obis_sample (''Taxon '' @ show_nat i) [] [] []) [0..<k]"

definition gbif_dated :: "string option \<Rightarrow> int option \<Rightarrow> int option \<Rightarrow> int option \<Rightarrow> gbif_record" where
  "gbif_dated d y m dd =
     \<lparr>scientificName = Some ''Thunnus albacares'', eventDate = d, minimumDepthInMeters = None,
      species = None, genericName = None, taxon = None,
      day = dd, month = m, year = y, depth = None, decimalDepth = None\<rparr>"

definition survey :: "obis_record list" where
  "survey =
     [obis_sample ''Sardinella longiceps'' ''Clupeidae'' ''Sardinella'' ''Actinopterygii'',
      obis_sample ''Thunnus albacares'' ''Scombridae'' ''Thunnus'' ''Actinopterygii'',
      obis_sample ''Stolephorus indicus'' ''Engraulidae'' ''Stolephorus'' ''Actinopterygii'',
      obis_sample ''Thunnus obesus'' ''Scombridae'' ''Thunnus'' ''ACTINOPTERYGII'',
      obis_sample ''Caranx ignobilis'' ''Carangidae'' ''Caranx'' ''Actinopterygii'']"

definition numeric_families :: "obis_record list" where
  "numeric_families =
     [obis_sample ''Thunnus albacares'' ''2'' ''Thunnus'' ''Actinopterygii'',
      obis_sample ''Sardinella longiceps'' ''1'' ''Sardinella'' ''Actinopterygii'']"

definition mixed_catch :: "obis_record list" where
  "mixed_catch =
     [obis_sample ''Delphinus delphis'' ''Delphinidae'' ''Delphinus'' ''Mammalia'',
      obis_sample ''Thunnus albacares'' ''Scombridae'' ''Thunnus'' ''Actinopterygii'',
      obis_sample ''Sardinella longiceps'' ''Clupeidae'' ''Sardinella'' ''actinopterygii'',
      obis_sample ''Thunnus albacares'' ''Scombridae'' ''Thunnus'' ''Actinopterygii'']"

definition dolphin :: obis_record where
  "dolphin = obis_sample ''Delphinus delphis'' ''Delphinidae'' ''Delphinus'' ''Mammalia''"

definition gbif_named :: "string option \<Rightarrow> occurrence" where
  "gbif_named n = \<lparr>scientificName = n, eventDate = None, minimumDepthInMeters = None\<rparr>"

definition gbif_catch :: "occurrence list" where
  "gbif_catch =
     [gbif_named (Some ''Sardinella longiceps''), gbif_named None,
      gbif_named (Some ''Katsuwonus pelamis''), gbif_named (Some ''Thunnus albacares'')]"

section \<open>The counting objects after the loop\<close>

text \<open>
  What the loop of lines 172-175 leaves in a counting object: the names in the order of
  their first occurrence, each with the number of its occurrences.
\<close>

definition tally :: "string list \<Rightarrow> counts" where
  "tally names = map (\<lambda>n. (n, count_list names n)) (new_Set names)"

section \<open>Properties of the utilities\<close>




text \<open>
  NaN, which no caller passes, is why the theorem speaks of numbers: \<^verbatim>\<open>Math.min\<close> and
  \<^verbatim>\<open>Math.max\<close> hand it through.
\<close>

lemma normalize_NaN_unchanged:
  "latitude (normalizeCoordsMaybeSwap NaN (Fin 0)) = NaN"
  by (simp add: normalizeCoordsMaybeSwap_def clamp_def)

text \<open>
  C10. \<open>display\<close> returns the placeholder \<^verbatim>\<open>"-"\<close> when its value is \<^verbatim>\<open>null\<close>,
  \<^verbatim>\<open>undefined\<close>, the empty string or the empty array, and in no other case: every other
  value is rendered as its string conversion followed by the suffix (a text that is
  \<^verbatim>\<open>"-"\<close> only if the value's own rendering makes it so), whatever digits the language
  prints for a number. In particular the falsy values that are not placeholders are
  rendered as themselves: the number 0 as \<^verbatim>\<open>"0"\<close>, NaN as \<^verbatim>\<open>"NaN"\<close>, \<^verbatim>\<open>false\<close> as
  \<^verbatim>\<open>"false"\<close>, each followed by the suffix.
\<close>

theorem display_placeholder:
  "(v = Null \<or> v = Undefined \<or> v = Str [] \<or> v = Arr [] \<longrightarrow> display shortest v suffix = ''-'')
   \<and> (\<not> (v = Null \<or> v = Undefined \<or> v = Str [] \<or> v = Arr [])
        \<longrightarrow> display shortest v suffix = ToString shortest v @ suffix)
   \<and> display shortest (Num (Fin 0)) suffix = ''0'' @ suffix
   \<and> display shortest (Num (Fin 0)) suffix \<noteq> ''-''
   \<and> display shortest (Num NaN) suffix = ''NaN'' @ suffix
   \<and> display shortest (Bool False) suffix = ''false'' @ suffix"
  by (simp add: display_def Number_toString_def show_int_def show_nat.simps digit_char_def)

text \<open>
  The empty array; zero; an array with a \<^verbatim>\<open>null\<close> in it; and a temperature of 27.5, for
  which the digits are those the parameter supplies.
\<close>

theorem display_placeholder_witness:
  "display (\<lambda>q. ''27.5'') (Arr []) ''%'' = ''-''
   \<and> display (\<lambda>q. ''27.5'') (Num (Fin 0)) ''%'' = ''0%''
   \<and> display (\<lambda>q. ''27.5'') (Arr [Str ''COI'', Null, Num (Fin 16)]) [] = ''COI,,16''
   \<and> display (\<lambda>q. ''27.5'') (Num (Fin (55 / 2))) '' C'' = ''27.5 C''"
proof -
  have zero: "Number_toString (\<lambda>q. ''27.5'') (Fin 0) = ''0''"
    by code_simp
  have sixteen: "Number_toString (\<lambda>q. ''27.5'') (Fin 16) = ''16''"
    by code_simp
  have half: "Number_toString (\<lambda>q. ''27.5'') (Fin (55 / 2)) = ''27.5''"
    by code_simp
  show ?thesis
    using display_placeholder [of "Arr []" "\<lambda>q. ''27.5''" "''%''"]
      display_placeholder [of "Num (Fin 0)" "\<lambda>q. ''27.5''" "''%''"]
      display_placeholder [of "Arr [Str ''COI'', Null, Num (Fin 16)]" "\<lambda>q. ''27.5''" "[]"]
      display_placeholder [of "Num (Fin (55 / 2))" "\<lambda>q. ''27.5''" "'' C''"]
    by (simp add: zero sixteen half)
qed

section \<open>Properties of the fetchers\<close>

text \<open>
  C7. When \<^verbatim>\<open>fetch\<close> rejects (a network failure) or the response status is not a success,
  \<open>fetchObisOccurrences\<close> rejects: the failure reaches its caller. On the same two
  failures \<open>fetchGbifFishOccurrences\<close> fulfils with the empty list.
\<close>

theorem fetch_failure_policy:
  "fetchObisOccurrences (Inl e) = Inl e
   \<and> fetchObisOccurrences (Inr (Response False body)) = Inl (Error ''OBIS response not ok'')
   \<and> fetchGbifFishOccurrences (Inl e) = Inr []
   \<and> fetchGbifFishOccurrences (Inr (Response False body')) = Inr []"
  by (simp add: fetchObisOccurrences_def fetchGbifFishOccurrences_def bind_js_def try_catch_def)

text \<open>
  C4. A source-B record with a direct \<^verbatim>\<open>eventDate\<close> and no year, month or day: the
  normalized event date is not the direct date but the template filled with empty
  parts. With year, month and day present, the normalized date is composed from them and
  the direct date, here with its time of day, is dropped. The direct date only
  decides, with the three parts, whether the field is there at all.
\<close>

theorem gbif_eventDate_not_direct:
  "eventDate (gbif_minimal (gbif_dated (Some ''2021-03-04'') None None None)) = Some ''-00-00''
   \<and> eventDate (gbif_minimal (gbif_dated (Some ''2021-03-04T10:15:00'') (Some 2021) (Some 3) (Some 4)))
       = Some ''2021-03-04''
   \<and> eventDate (gbif_minimal (gbif_dated None None None None)) = None"
  by code_simp

lemma fetchOceanographicFromApi_fulfils: "\<exists>r. fetchOceanographicFromApi http = Inr r"
  by (auto simp: fetchOceanographicFromApi_def try_catch_def bind_js_def
      split: sum.splits marine_json.splits)

lemma fetchFisheriesFromApi_fulfils: "\<exists>r. fetchFisheriesFromApi oh gh = Inr r"
  by (auto simp: fetchFisheriesFromApi_def try_catch_def split: sum.splits)

lemma fetchBiodiversityFromApi_fulfils: "\<exists>r. fetchBiodiversityFromApi http = Inr r"
  by (auto simp: fetchBiodiversityFromApi_def try_catch_def split: sum.splits)

lemma fetchOceanographicFromApi_rejected: "fetchOceanographicFromApi (Inl e) = Inr None"
  by (simp add: fetchOceanographicFromApi_def try_catch_def bind_js_def)

lemma fetchFisheriesFromApi_rejected: "fetchFisheriesFromApi (Inl e) gh = Inr None"
  by (simp add: fetchFisheriesFromApi_def fetchObisOccurrences_def Promise_all2_def
      try_catch_def bind_js_def)

lemma fetchBiodiversityFromApi_rejected: "fetchBiodiversityFromApi (Inl e) = Inr None"
  by (simp add: fetchBiodiversityFromApi_def fetchObisOccurrences_def try_catch_def bind_js_def)

text \<open>
  On a successful source-A response the two aggregating fetchers fulfil with the summary
  computed from the parsed body.
\<close>

lemma fetchBiodiversityFromApi_success:
  "fetchBiodiversityFromApi (Inr (Response True (Inr j))) = Inr (Some (biodiversity_of j))"
  by (simp add: fetchBiodiversityFromApi_def fetchObisOccurrences_def try_catch_def bind_js_def)

lemma fetchFisheriesFromApi_success:
  "fetchGbifFishOccurrences gh = Inr g \<Longrightarrow>
   fetchFisheriesFromApi (Inr (Response True (Inr j))) gh = Inr (Some (fisheries_of j g))"
  by (simp add: fetchFisheriesFromApi_def fetchObisOccurrences_def Promise_all2_def
      try_catch_def bind_js_def)

text \<open>
  C6. Whatever the network answers to the four requests, each of the three fetchers
  fulfils (with a summary or with \<^verbatim>\<open>null\<close>), so \<^verbatim>\<open>Promise.all\<close> fulfils with all three
  results and \<open>getLiveOrMockData\<close> fulfils: no failure escapes. Each field of its result
  is the summary of its fetcher, or the empty object when the fetcher gave \<^verbatim>\<open>null\<close>.
  When the request of one domain fails instead, that domain's field is the empty object
  and the other two fields are what they were.
\<close>

theorem getLiveOrMockData_contains_failures:
  "\<exists>oceanApi fishApi molApi.
      fetchOceanographicFromApi (marine_request net) = Inr oceanApi
    \<and> fetchFisheriesFromApi (obis_request_fisheries net) (gbif_request net) = Inr fishApi
    \<and> fetchBiodiversityFromApi (obis_request_biodiversity net) = Inr molApi
    \<and> getLiveOrMockData net =
        Inr \<lparr>oceanographic = (case oceanApi of None \<Rightarrow> EmptyObject | Some s \<Rightarrow> Summary s),
             fisheries = (case fishApi of None \<Rightarrow> EmptyObject | Some s \<Rightarrow> Summary s),
             molecular = (case molApi of None \<Rightarrow> EmptyObject | Some s \<Rightarrow> Summary s)\<rparr>
    \<and> getLiveOrMockData (net\<lparr>marine_request := Inl e\<rparr>) =
        Inr \<lparr>oceanographic = EmptyObject,
             fisheries = (case fishApi of None \<Rightarrow> EmptyObject | Some s \<Rightarrow> Summary s),
             molecular = (case molApi of None \<Rightarrow> EmptyObject | Some s \<Rightarrow> Summary s)\<rparr>
    \<and> getLiveOrMockData (net\<lparr>obis_request_fisheries := Inl e\<rparr>) =
        Inr \<lparr>oceanographic = (case oceanApi of None \<Rightarrow> EmptyObject | Some s \<Rightarrow> Summary s),
             fisheries = EmptyObject,
             molecular = (case molApi of None \<Rightarrow> EmptyObject | Some s \<Rightarrow> Summary s)\<rparr>
    \<and> getLiveOrMockData (net\<lparr>obis_request_biodiversity := Inl e\<rparr>) =
        Inr \<lparr>oceanographic = (case oceanApi of None \<Rightarrow> EmptyObject | Some s \<Rightarrow> Summary s),
             fisheries = (case fishApi of None \<Rightarrow> EmptyObject | Some s \<Rightarrow> Summary s),
             molecular = EmptyObject\<rparr>"
proof -
  obtain oceanApi where o: "fetchOceanographicFromApi (marine_request net) = Inr oceanApi"
    using fetchOceanographicFromApi_fulfils by blast
  obtain fishApi
    where f: "fetchFisheriesFromApi (obis_request_fisheries net) (gbif_request net) = Inr fishApi"
    using fetchFisheriesFromApi_fulfils by blast
  obtain molApi where m: "fetchBiodiversityFromApi (obis_request_biodiversity net) = Inr molApi"
    using fetchBiodiversityFromApi_fulfils by blast
  show ?thesis
    using o f m
    by (simp add: getLiveOrMockData_def Promise_all3_def bind_js_def or_empty_object_def
        fetchOceanographicFromApi_rejected fetchFisheriesFromApi_rejected
        fetchBiodiversityFromApi_rejected)
qed

section \<open>Insertion-ordered sets and counting objects\<close>

lemma set_foldl_Set_add: "set (foldl Set_add acc xs) = set acc \<union> set xs"
  by (induction xs arbitrary: acc) (auto simp: Set_add_def)

lemma distinct_foldl_Set_add: "distinct acc \<Longrightarrow> distinct (foldl Set_add acc xs)"
  by (induction xs arbitrary: acc) (auto simp: Set_add_def)

lemma set_new_Set: "set (new_Set xs) = set xs"
  by (simp add: new_Set_def set_foldl_Set_add)

lemma distinct_new_Set: "distinct (new_Set xs)"
  by (simp add: new_Set_def distinct_foldl_Set_add)

lemma length_new_Set: "length (new_Set xs) = card (set xs)"
  using distinct_card [OF distinct_new_Set, of xs] by (simp add: set_new_Set)

lemma new_Set_snoc: "new_Set (xs @ [x]) = Set_add (new_Set xs) x"
  by (simp add: new_Set_def)

lemma new_Set_first_seen: "new_Set xs = rev (remdups (rev xs))"
proof (induction xs rule: rev_induct)
  case Nil
  show ?case by (simp add: new_Set_def)
next
  case (snoc x xs)
  show ?case
    by (simp add: new_Set_snoc snoc.IH Set_add_def)
qed

lemma new_Set_append:
  "new_Set (xs @ ys) = new_Set xs @ filter (\<lambda>y. y \<notin> set xs) (new_Set ys)"
proof (induction ys rule: rev_induct)
  case Nil
  show ?case by (simp add: new_Set_def)
next
  case (snoc y ys)
  have "new_Set (xs @ ys @ [y]) = Set_add (new_Set (xs @ ys)) y"
    using new_Set_snoc [of "xs @ ys" y] by simp
  then show ?case
    by (auto simp: snoc.IH new_Set_snoc Set_add_def set_new_Set)
qed

lemma set_filter_Boolean:
  "set (filter_Boolean xs) = {n. n \<noteq> [] \<and> Some n \<in> set xs}"
  by (induction xs) (auto simp: filter_Boolean_def truthy_str_def split: option.splits)

lemma map_of_graph: "map_of (map (\<lambda>n. (n, f n)) ns) x = (if x \<in> set ns then Some (f x) else None)"
  by (induction ns) auto

lemma obj_set_new: "x \<notin> set ns \<Longrightarrow> obj_set (map (\<lambda>n. (n, f n)) ns) x v = map (\<lambda>n. (n, f n)) ns @ [(x, v)]"
  by (induction ns) auto

lemma obj_set_old:
  "x \<in> set ns \<Longrightarrow> distinct ns \<Longrightarrow>
   obj_set (map (\<lambda>n. (n, f n)) ns) x v = map (\<lambda>n. (n, if n = x then v else f n)) ns"
  by (induction ns) auto

lemma bump_tally: "bump (tally xs) x = tally (xs @ [x])"
proof (cases "x \<in> set xs")
  case True
  then have pos: "count_list xs x \<noteq> 0"
    by (simp add: count_list_0_iff)
  have "bump (tally xs) x = obj_set (tally xs) x (count_list xs x + 1)"
    using True pos by (simp add: bump_def tally_def map_of_graph set_new_Set js_or_default_def truthy_num_def)
  also have "\<dots> = map (\<lambda>n. (n, if n = x then count_list xs x + 1 else count_list xs n)) (new_Set xs)"
    unfolding tally_def using True by (simp add: obj_set_old set_new_Set distinct_new_Set)
  also have "\<dots> = tally (xs @ [x])"
    using True by (auto simp: tally_def new_Set_snoc Set_add_def set_new_Set)
  finally show ?thesis .
next
  case False
  then have zero: "count_list xs x = 0"
    by (simp add: count_list_0_iff)
  have "bump (tally xs) x = obj_set (tally xs) x 1"
    using False by (simp add: bump_def tally_def map_of_graph set_new_Set js_or_default_def)
  also have "\<dots> = tally xs @ [(x, 1)]"
    unfolding tally_def using False by (simp add: obj_set_new set_new_Set)
  also have "\<dots> = tally (xs @ [x])"
    using False zero by (auto simp: tally_def new_Set_snoc Set_add_def set_new_Set)
  finally show ?thesis .
qed

lemma foldl_bump: "foldl bump [] names = tally names"
proof (induction names rule: rev_induct)
  case Nil
  show ?case by (simp add: tally_def new_Set_def)
next
  case (snoc x xs)
  then show ?case by (simp add: bump_tally)
qed

lemma filter_Boolean_Cons: "filter_Boolean (a # xs) = filter_Boolean [a] @ filter_Boolean xs"
  by (simp add: filter_Boolean_def)

lemma count_record_step:
  "count_record (fc, gc) r =
     (foldl bump fc (filter_Boolean [family r]), foldl bump gc (filter_Boolean [genus r]))"
  by (simp add: count_record_def filter_Boolean_def Let_def split: option.splits)

lemma foldl_count_record:
  "foldl count_record (fc, gc) records =
     (foldl bump fc (filter_Boolean (map family records)),
      foldl bump gc (filter_Boolean (map genus records)))"
proof (induction records arbitrary: fc gc)
  case Nil
  show ?case by (simp add: filter_Boolean_def)
next
  case (Cons r records)
  have "foldl count_record (fc, gc) (r # records)
        = foldl count_record
            (foldl bump fc (filter_Boolean [family r]), foldl bump gc (filter_Boolean [genus r]))
            records"
    by (simp add: count_record_step)
  also have "\<dots> = (foldl bump fc (filter_Boolean [family r] @ filter_Boolean (map family records)),
                     foldl bump gc (filter_Boolean [genus r] @ filter_Boolean (map genus records)))"
    by (simp add: Cons.IH)
  finally show ?case
    using filter_Boolean_Cons [of "family r" "map family records"]
      filter_Boolean_Cons [of "genus r" "map genus records"]
    by simp
qed

lemma Object_entries_ordinary:
  assumes "\<forall>e \<in> set obj. array_index (fst e) = None"
  shows "Object_entries obj = obj"
proof -
  have a: "filter (\<lambda>(k, v). array_index k \<noteq> None) obj = []"
    using assms by (auto simp: filter_empty_conv)
  have b: "filter (\<lambda>(k, v). array_index k = None) obj = obj"
    using assms by (auto simp: filter_id_conv)
  show ?thesis
    unfolding Object_entries_def a b by simp
qed

lemma sorted_descending:
  "sorted (map (\<lambda>e. - int (snd e)) l) \<Longrightarrow> sorted (rev (map snd l))"
  by (induction l) (auto simp: sorted_append)

lemma ranks_by_count_sorted_tally:
  "ranks_by_count names (sort_key (\<lambda>e. - int (snd e)) (tally names))"
proof -
  let ?key = "\<lambda>e :: string \<times> nat. - int (snd e)"
  let ?ranked = "sort_key ?key (tally names)"
  have fst_tally: "map fst (tally names) = new_Set names"
    by (simp add: tally_def comp_def)
  have d: "distinct (map fst ?ranked)"
  proof -
    have "distinct (map fst (tally names))"
      by (simp add: fst_tally distinct_new_Set)
    then have "distinct (tally names)" and "inj_on fst (set (tally names))"
      by (simp_all add: distinct_map)
    then show ?thesis
      by (simp add: distinct_map)
  qed
  have s: "set (map fst ?ranked) = set names"
    using fst_tally set_new_Set [of names] by (metis set_map set_sort)
  have c: "\<forall>e \<in> set ?ranked. snd e = count_list names (fst e)"
    by (auto simp: tally_def)
  have o: "sorted (rev (map snd ?ranked))"
    by (rule sorted_descending) (rule sorted_sort_key)
  have t: "map fst (filter (\<lambda>e. snd e = k) ?ranked)
           = filter (\<lambda>n. count_list names n = k) (rev (remdups (rev names)))" for k
  proof -
    have "filter (\<lambda>e. snd e = k) ?ranked = filter (\<lambda>e. ?key e = - int k) ?ranked"
      by simp
    also have "\<dots> = filter (\<lambda>e. ?key e = - int k) (tally names)"
      by (rule sort_key_stable)
    also have "\<dots> = filter (\<lambda>e. snd e = k) (tally names)"
      by simp
    finally have "map fst (filter (\<lambda>e. snd e = k) ?ranked)
                  = map fst (filter (\<lambda>e. snd e = k) (tally names))"
      by simp
    also have "\<dots> = filter (\<lambda>n. count_list names n = k) (new_Set names)"
      by (simp add: tally_def filter_map comp_def)
    finally show ?thesis
      by (simp add: new_Set_first_seen)
  qed
  show ?thesis
    unfolding ranks_by_count_def using d s c o t by blast
qed

section \<open>Properties of the aggregations\<close>

lemma toFixed2_hundredths:
  assumes "m < 100"
  shows "toFixed2 (of_nat m / 100) = ''0.'' @ [digit_char (m div 10), digit_char (m mod 10)]"
proof -
  have "\<lfloor>(of_nat m / 100 :: rat) * 100 + 1 / 2\<rfloor> = int m"
    by (simp add: floor_eq_iff) 
  then show ?thesis
    using assms by (simp add: toFixed2_def Let_def show_nat.simps digit_char_def)
qed

lemma min_hundredths: "min (of_nat u / 100) (95 / 100 :: rat) = of_nat (min u 95) / 100"
  by (simp add: min_def)

lemma at_most_50: "(x::nat) = k \<Longrightarrow> k \<le> 50 \<Longrightarrow> (\<not> 50 < x \<longrightarrow> P) \<Longrightarrow> P"
  by simp

lemma above_50: "(x::nat) = k \<Longrightarrow> 50 < k \<Longrightarrow> (50 < x \<longrightarrow> P) \<Longrightarrow> P"
  by simp

text \<open>
  C1. With \<open>u\<close> the number of distinct non-empty scientific names among the source-A
  records, biodiversity aggregation returns \<open>u\<close> as the taxa count; a diversity index
  that is \<open>min (u / 100) 0.95\<close> printed with two decimals, which is \<^verbatim>\<open>"0."\<close> followed by
  the two digits of \<open>min u 95\<close>, and \<^verbatim>\<open>"0.00"\<close> when \<open>u = 0\<close>; and the risk \<^verbatim>\<open>"Moderate"\<close>
  exactly when \<open>u > 50\<close>, \<^verbatim>\<open>"Low"\<close> otherwise. A record whose name is missing or empty
  contributes no name.
\<close>

theorem biodiversity_indices:
  "(let s = biodiversity_of j;
        u = card {n. n \<noteq> [] \<and> (\<exists>r \<in> set (results_of j). scientificName r = Some n)}
    in potentialTaxaDetected s = u
     \<and> eDnaDiversityIndex s = toFixed2 (min (of_nat u / 100) (95 / 100))
     \<and> eDnaDiversityIndex s = ''0.'' @ [digit_char (min u 95 div 10), digit_char (min u 95 mod 10)]
     \<and> (u = 0 \<longrightarrow> eDnaDiversityIndex s = ''0.00'')
     \<and> (u > 50 \<longrightarrow> invasiveRisk s = ''Moderate'')
     \<and> (\<not> u > 50 \<longrightarrow> invasiveRisk s = ''Low''))"
proof -
  define u where "u = card {n. n \<noteq> [] \<and> (\<exists>r \<in> set (results_of j). scientificName r = Some n)}"
  have names: "set (filter_Boolean (map scientificName (results_of j)))
               = {n. n \<noteq> [] \<and> (\<exists>r \<in> set (results_of j). scientificName r = Some n)}"
    by (force simp: set_filter_Boolean image_iff)
  have len: "length (new_Set (filter_Boolean (map scientificName (results_of j)))) = u"
    by (simp add: length_new_Set names u_def)
  have fixed: "toFixed2 (min (of_nat u / 100) (95 / 100))
               = ''0.'' @ [digit_char (min u 95 div 10), digit_char (min u 95 mod 10)]"
    by (simp only: min_hundredths) (rule toFixed2_hundredths, simp)
  have zero: "''0.'' @ [digit_char (min 0 95 div 10), digit_char (min 0 95 mod 10)] = ''0.00''"
    by (simp add: digit_char_def)
  have p: "potentialTaxaDetected (biodiversity_of j) = u"
    unfolding biodiversity_of_def Let_def len by simp
  have e0: "eDnaDiversityIndex (biodiversity_of j)
            = (if u > 0 then toFixed2 (min (of_nat u / 100) (95 / 100)) else ''0.00'')"
    unfolding biodiversity_of_def Let_def len by simp
  have e: "eDnaDiversityIndex (biodiversity_of j)
           = ''0.'' @ [digit_char (min u 95 div 10), digit_char (min u 95 mod 10)]"
  proof (cases "u = 0")
    case True
    then show ?thesis unfolding e0 using zero by simp
  next
    case False
    then show ?thesis unfolding e0 fixed by simp
  qed
  have r: "invasiveRisk (biodiversity_of j) = (if u > 50 then ''Moderate'' else ''Low'')"
    unfolding biodiversity_of_def Let_def len by simp
  have z: "u = 0 \<longrightarrow> eDnaDiversityIndex (biodiversity_of j) = ''0.00''"
    unfolding e0 by simp
  show ?thesis
    unfolding Let_def u_def [symmetric] fixed using p e r z by simp
qed


text \<open>No record; fifty distinct names; fifty-one distinct names.\<close>

theorem biodiversity_indices_witness:
  "potentialTaxaDetected (biodiversity_of (ResultsArray ([] :: obis_record list))) = 0
   \<and> eDnaDiversityIndex (biodiversity_of (ResultsArray ([] :: obis_record list))) = ''0.00''
   \<and> invasiveRisk (biodiversity_of (ResultsArray ([] :: obis_record list))) = ''Low''
   \<and> potentialTaxaDetected (biodiversity_of (ResultsArray (numbered_taxa 50))) = 50
   \<and> invasiveRisk (biodiversity_of (ResultsArray (numbered_taxa 50))) = ''Low''
   \<and> potentialTaxaDetected (biodiversity_of (ResultsArray (numbered_taxa 51))) = 51
   \<and> invasiveRisk (biodiversity_of (ResultsArray (numbered_taxa 51))) = ''Moderate''"
proof -
  note empty = biodiversity_indices [of "ResultsArray ([] :: obis_record list)", unfolded Let_def]
  note fifty = biodiversity_indices [of "ResultsArray (numbered_taxa 50)", unfolded Let_def]
  note more = biodiversity_indices [of "ResultsArray (numbered_taxa 51)", unfolded Let_def]
  have n0: "potentialTaxaDetected (biodiversity_of (ResultsArray ([] :: obis_record list))) = 0"
    by code_simp
  have n50: "potentialTaxaDetected (biodiversity_of (ResultsArray (numbered_taxa 50))) = 50"
    by code_simp
  have n51: "potentialTaxaDetected (biodiversity_of (ResultsArray (numbered_taxa 51))) = 51"
    by code_simp
  note u0 = empty [THEN conjunct1, symmetric, THEN trans, OF n0]
  note u50 = fifty [THEN conjunct1, symmetric, THEN trans, OF n50]
  note u51 = more [THEN conjunct1, symmetric, THEN trans, OF n51]
  have a: "eDnaDiversityIndex (biodiversity_of (ResultsArray ([] :: obis_record list))) = ''0.00''"
    by (rule empty [THEN conjunct2, THEN conjunct2, THEN conjunct2, THEN conjunct1, THEN mp, OF u0])
  have b: "invasiveRisk (biodiversity_of (ResultsArray ([] :: obis_record list))) = ''Low''"
    by (rule at_most_50 [OF u0 _ empty [THEN conjunct2, THEN conjunct2, THEN conjunct2,
          THEN conjunct2, THEN conjunct2]]) simp
  have c: "invasiveRisk (biodiversity_of (ResultsArray (numbered_taxa 50))) = ''Low''"
    by (rule at_most_50 [OF u50 _ fifty [THEN conjunct2, THEN conjunct2, THEN conjunct2,
          THEN conjunct2, THEN conjunct2]]) simp
  have d: "invasiveRisk (biodiversity_of (ResultsArray (numbered_taxa 51))) = ''Moderate''"
    by (rule above_50 [OF u51 _ more [THEN conjunct2, THEN conjunct2, THEN conjunct2,
          THEN conjunct2, THEN conjunct1]]) simp
  show ?thesis
    using n0 n50 n51 a b c d by simp
qed


lemma Math_round_round: "Math_round x = round x"
  by (simp add: Math_round_def round_def)

text \<open>
  C2. With \<open>n\<close> the combined count (the fish among the source-A records plus the source-B
  records), fisheries aggregation returns the catch index \<open>2 * n + 20\<close> clamped into
  \<open>[20, 95]\<close>, which is 20 at \<open>n = 0\<close> and 95 from \<open>n = 38\<close> on; the habitat suitability
  \<open>40 + round (0.8 * n)\<close> capped at 98, which is 40 at \<open>n = 0\<close>; and the favorable
  advisory exactly when \<open>n > 10\<close>, the survey advisory otherwise.
\<close>

theorem fisheries_indices:
  "totalFishOccurrencesCombined (fisheries_of obisJson gbifFish)
     = length (filter is_fish (results_of obisJson)) + length gbifFish
   \<and> (let s = fisheries_of obisJson gbifFish; n = totalFishOccurrencesCombined s
      in predictedCatchIndex s = max 20 (min 95 (2 * int n + 20))
       \<and> 20 \<le> predictedCatchIndex s \<and> predictedCatchIndex s \<le> 95
       \<and> (n = 0 \<longrightarrow> predictedCatchIndex s = 20)
       \<and> (38 \<le> n \<longrightarrow> predictedCatchIndex s = 95)
       \<and> habitatSuitability s = min 98 (40 + round (8 / 10 * (of_nat n :: rat)))
       \<and> (n = 0 \<longrightarrow> habitatSuitability s = 40)
       \<and> (n > 10 \<longrightarrow> advisories s = ''Conditions favorable for small-scale fishing'')
       \<and> (\<not> n > 10 \<longrightarrow> advisories s = ''Survey area recommended''))"
  by (simp add: fisheries_of_def Let_def Math_round_round mult.commute)

text \<open>Eleven fish records: index 42, suitability \<open>40 + round 8.8 = 49\<close>, favorable.\<close>

theorem fisheries_indices_witness:
  "(let s = fisheries_of (ResultsArray (replicate 11 tuna)) []
    in totalFishOccurrencesCombined s = 11 \<and> predictedCatchIndex s = 42
     \<and> habitatSuitability s = 49
     \<and> advisories s = ''Conditions favorable for small-scale fishing'')"
proof -
  have n: "totalFishOccurrencesCombined (fisheries_of (ResultsArray (replicate 11 tuna)) []) = 11"
    by code_simp
  have r: "round (44 / 5 :: rat) = 9"
    by code_simp
  show ?thesis
    using fisheries_indices [of "ResultsArray (replicate 11 tuna)" "[]"]
    unfolding Let_def n by (simp add: r)
qed

lemma first_name_falsy:
  assumes "\<forall>r \<in> set xs. \<not> truthy_opt truthy_str (scientificName r)"
  shows "\<not> truthy_opt truthy_str (first_name xs)"
  using assms by (cases xs) (auto simp: first_name_def index0_def truthy_opt_def)

lemma first_name_raw:
  "first_name xs = (case xs of [] \<Rightarrow> None | r # _ \<Rightarrow> scientificName r)"
  by (simp add: first_name_def index0_def split: list.splits)

text \<open>
  C8. The combined species list of fisheries aggregation has no duplicates and holds
  the non-empty names of the source-A fish and of the source-B records: first the
  source-A fish names, each at its first occurrence, then the source-B names not among
  them, each at its first occurrence. The dominant species is the first combined name;
  when the combined list is empty it is the name of the first raw source-A record (fish
  or not) if that record is there and its name is non-empty, else the name of the first
  source-B record if that record is there and its name is non-empty, else \<^verbatim>\<open>"Unknown"\<close>.
  When no record of either source has a non-empty name it is \<^verbatim>\<open>"Unknown"\<close>.
\<close>

theorem combined_species_and_dominant:
  "(let obisRecords = results_of obisJson;
        A = filter_Boolean (map scientificName (filter is_fish obisRecords));
        B = filter_Boolean (map scientificName gbifFish);
        C = combinedSpecies_of (filter is_fish obisRecords) gbifFish;
        firstA = (case obisRecords of [] \<Rightarrow> None | r # _ \<Rightarrow> scientificName r);
        firstB = (case gbifFish of [] \<Rightarrow> None | r # _ \<Rightarrow> scientificName r);
        s = fisheries_of obisJson gbifFish
    in distinct C
     \<and> set C = {n. n \<noteq> [] \<and> (\<exists>r \<in> set obisRecords. is_fish r \<and> scientificName r = Some n)}
               \<union> {n. n \<noteq> [] \<and> (\<exists>r \<in> set gbifFish. scientificName r = Some n)}
     \<and> C = rev (remdups (rev A)) @ filter (\<lambda>n. n \<notin> set A) (rev (remdups (rev B)))
     \<and> sampleSpecies s = take 5 C
     \<and> dominantSpecies s =
         (case C of
            n # _ \<Rightarrow> n
          | [] \<Rightarrow>
             (case firstA of
                Some n \<Rightarrow> if n \<noteq> [] then n
                          else (case firstB of
                                  Some m \<Rightarrow> if m \<noteq> [] then m else ''Unknown''
                                | None \<Rightarrow> ''Unknown'')
              | None \<Rightarrow> (case firstB of
                           Some m \<Rightarrow> if m \<noteq> [] then m else ''Unknown''
                         | None \<Rightarrow> ''Unknown'')))
     \<and> ((\<forall>r \<in> set obisRecords. scientificName r = None \<or> scientificName r = Some [])
        \<and> (\<forall>r \<in> set gbifFish. scientificName r = None \<or> scientificName r = Some [])
        \<longrightarrow> dominantSpecies s = ''Unknown''))"
proof -
  define obisRecords where "obisRecords = results_of obisJson"
  define A where "A = filter_Boolean (map scientificName (filter is_fish obisRecords))"
  define B where "B = filter_Boolean (map scientificName gbifFish)"
  define C where "C = combinedSpecies_of (filter is_fish obisRecords) gbifFish"
  define s where "s = fisheries_of obisJson gbifFish"
  have C_eq: "C = new_Set (A @ B)"
    by (simp add: C_def combinedSpecies_of_def A_def B_def Let_def)
  have d: "distinct C"
    by (simp add: C_eq distinct_new_Set)
  have setA: "set A = {n. n \<noteq> [] \<and> (\<exists>r \<in> set obisRecords. is_fish r \<and> scientificName r = Some n)}"
    unfolding A_def by (force simp: set_filter_Boolean image_iff)
  have setB: "set B = {n. n \<noteq> [] \<and> (\<exists>r \<in> set gbifFish. scientificName r = Some n)}"
    unfolding B_def by (force simp: set_filter_Boolean image_iff)
  have st: "set C = {n. n \<noteq> [] \<and> (\<exists>r \<in> set obisRecords. is_fish r \<and> scientificName r = Some n)}
               \<union> {n. n \<noteq> [] \<and> (\<exists>r \<in> set gbifFish. scientificName r = Some n)}"
    unfolding C_eq set_new_Set set_append setA setB ..
  have ord: "C = rev (remdups (rev A)) @ filter (\<lambda>n. n \<notin> set A) (rev (remdups (rev B)))"
    by (simp only: C_eq new_Set_append) (simp only: new_Set_first_seen)
  have sample: "sampleSpecies s = take 5 C"
    by (simp add: s_def fisheries_of_def Let_def C_def obisRecords_def)
  have nonempty: "n \<noteq> []" if "n \<in> set C" for n
    using that st by auto
  have dom: "dominantSpecies s =
      js_or_default truthy_str
        (js_or truthy_str (js_or truthy_str (index0 C) (first_name obisRecords)) (first_name gbifFish))
        ''Unknown''"
    by (simp add: s_def fisheries_of_def Let_def C_def obisRecords_def)
  have chain: "dominantSpecies s =
         (case C of
            n # _ \<Rightarrow> n
          | [] \<Rightarrow>
             (case first_name obisRecords of
                Some n \<Rightarrow> if n \<noteq> [] then n
                          else (case first_name gbifFish of
                                  Some m \<Rightarrow> if m \<noteq> [] then m else ''Unknown''
                                | None \<Rightarrow> ''Unknown'')
              | None \<Rightarrow> (case first_name gbifFish of
                           Some m \<Rightarrow> if m \<noteq> [] then m else ''Unknown''
                         | None \<Rightarrow> ''Unknown'')))"
  proof (cases C)
    case Nil
    then show ?thesis
      unfolding dom
      by (simp add: index0_def js_or_def js_or_default_def truthy_opt_def truthy_str_def
          split: option.splits)
  next
    case (Cons n ns)
    then have "n \<noteq> []" using nonempty by simp
    then show ?thesis
      unfolding dom using Cons
      by (simp add: index0_def js_or_def js_or_default_def truthy_opt_def truthy_str_def)
  qed
  have unknown: "dominantSpecies s = ''Unknown''"
    if a': "\<forall>r \<in> set obisRecords. scientificName r = None \<or> scientificName r = Some []"
    and b': "\<forall>r \<in> set gbifFish. scientificName r = None \<or> scientificName r = Some []"
  proof -
    have a: "\<forall>r \<in> set obisRecords. \<not> truthy_opt truthy_str (scientificName r)"
      using a' by (auto simp: truthy_opt_def truthy_str_def)
    have b: "\<forall>r \<in> set gbifFish. \<not> truthy_opt truthy_str (scientificName r)"
      using b' by (auto simp: truthy_opt_def truthy_str_def)
    have "set C = {}"
      unfolding st using a b by (auto simp: truthy_opt_def truthy_str_def)
    then have "C = []" by simp
    moreover have "\<not> truthy_opt truthy_str (first_name obisRecords)"
      using a by (rule first_name_falsy)
    moreover have "\<not> truthy_opt truthy_str (first_name gbifFish)"
      using b by (rule first_name_falsy)
    ultimately show ?thesis
      unfolding dom
      by (simp add: index0_def js_or_def js_or_default_def truthy_opt_def truthy_str_def
          split: option.splits)
  qed
  note raw_chain = chain [unfolded first_name_raw [of obisRecords] first_name_raw [of gbifFish]]
  show ?thesis
    unfolding Let_def obisRecords_def [symmetric] A_def [symmetric] B_def [symmetric]
      C_def [symmetric] s_def [symmetric]
    using d st ord sample raw_chain unknown by blast
qed


text \<open>
  No named record at all: \<^verbatim>\<open>"Unknown"\<close>. A single dolphin from source A and an unnamed
  source-B record: no fish name, so the first raw record names the dominant species.
  Then a dolphin, two tunas and a sardine from source A with four source-B records.
\<close>

theorem combined_species_and_dominant_witness:
  "dominantSpecies (fisheries_of (ResultsArray []) [gbif_named None]) = ''Unknown''
   \<and> combinedSpecies_of (filter is_fish (results_of (ResultsArray [dolphin]))) [gbif_named None] = []
   \<and> dominantSpecies (fisheries_of (ResultsArray [dolphin]) [gbif_named None]) = ''Delphinus delphis''
   \<and> combinedSpecies_of (filter is_fish (results_of (ResultsArray mixed_catch))) gbif_catch
       = [''Thunnus albacares'', ''Sardinella longiceps'', ''Katsuwonus pelamis'']
   \<and> dominantSpecies (fisheries_of (ResultsArray mixed_catch) gbif_catch) = ''Thunnus albacares''"
proof -
  note none = combined_species_and_dominant [of "ResultsArray []" "[gbif_named None]", unfolded Let_def]
  note raw = combined_species_and_dominant [of "ResultsArray [dolphin]" "[gbif_named None]", unfolded Let_def]
  note some = combined_species_and_dominant [of "ResultsArray mixed_catch" gbif_catch, unfolded Let_def]
  have h: "(\<forall>r \<in> set (results_of (ResultsArray ([] :: obis_record list))).
              scientificName r = None \<or> scientificName r = Some [])
    \<and> (\<forall>r \<in> set [gbif_named None]. scientificName r = None \<or> scientificName r = Some [])"
    by (simp add: results_of_def gbif_named_def)
  have u: "dominantSpecies (fisheries_of (ResultsArray []) [gbif_named None]) = ''Unknown''"
    by (rule none [THEN conjunct2, THEN conjunct2, THEN conjunct2, THEN conjunct2,
          THEN conjunct2, THEN mp, OF h])
  have e: "combinedSpecies_of (filter is_fish (results_of (ResultsArray [dolphin]))) [gbif_named None] = []"
    by code_simp
  have f: "dominantSpecies (fisheries_of (ResultsArray [dolphin]) [gbif_named None]) = ''Delphinus delphis''"
    using raw [THEN conjunct2, THEN conjunct2, THEN conjunct2, THEN conjunct2, THEN conjunct1]
    unfolding e by (simp add: results_of_def dolphin_def obis_sample_def)
  have c: "combinedSpecies_of (filter is_fish (results_of (ResultsArray mixed_catch))) gbif_catch
       = [''Thunnus albacares'', ''Sardinella longiceps'', ''Katsuwonus pelamis'']"
    by code_simp
  have d: "dominantSpecies (fisheries_of (ResultsArray mixed_catch) gbif_catch) = ''Thunnus albacares''"
    using some [THEN conjunct2, THEN conjunct2, THEN conjunct2, THEN conjunct2, THEN conjunct1]
    unfolding c by simp
  show ?thesis
    using u e f c d by blast
qed

text \<open>
  C5, as amended. When the family and genus names of the records are ordinary property
  names, the top families are the first three of the ranking of the family names by
  count (descending, equal counts in the order of first occurrence in the record list),
  each printed as \<^verbatim>\<open>name (count)\<close>; likewise the top genera.
\<close>

theorem top_families_and_genera:
  assumes "\<forall>r \<in> set (results_of j).
             (\<forall>n. family r = Some n \<longrightarrow> ordinary_name n)
           \<and> (\<forall>n. genus r = Some n \<longrightarrow> ordinary_name n)"
  shows "\<exists>rankedFamilies rankedGenera.
           topFamilies (biodiversity_of j) = map fmt_entry (take 3 rankedFamilies)
         \<and> ranks_by_count (filter_Boolean (map family (results_of j))) rankedFamilies
         \<and> topGenera (biodiversity_of j) = map fmt_entry (take 3 rankedGenera)
         \<and> ranks_by_count (filter_Boolean (map genus (results_of j))) rankedGenera"
proof -
  let ?F = "filter_Boolean (map family (results_of j))"
  let ?G = "filter_Boolean (map genus (results_of j))"
  let ?key = "\<lambda>e :: string \<times> nat. - int (snd e)"
  have counted: "foldl count_record ([], []) (results_of j) = (tally ?F, tally ?G)"
    by (simp add: foldl_count_record foldl_bump)
  have F_ord: "\<forall>e \<in> set (tally ?F). array_index (fst e) = None"
    using assms by (auto simp: tally_def set_new_Set set_filter_Boolean ordinary_name_def)
  have G_ord: "\<forall>e \<in> set (tally ?G). array_index (fst e) = None"
    using assms by (auto simp: tally_def set_new_Set set_filter_Boolean ordinary_name_def)
  have tf: "topFamilies (biodiversity_of j) = map fmt_entry (take 3 (sort_key ?key (tally ?F)))"
    by (simp add: biodiversity_of_def Let_def counted topK_def Object_entries_ordinary [OF F_ord])
  have tg: "topGenera (biodiversity_of j) = map fmt_entry (take 3 (sort_key ?key (tally ?G)))"
    by (simp add: biodiversity_of_def Let_def counted topK_def Object_entries_ordinary [OF G_ord])
  show ?thesis
    using tf tg ranks_by_count_sorted_tally [of ?F] ranks_by_count_sorted_tally [of ?G]
    by blast
qed

theorem top_families_and_genera_witness:
  "topFamilies (biodiversity_of (ResultsArray survey))
     = [''Scombridae (2)'', ''Clupeidae (1)'', ''Engraulidae (1)'']
   \<and> topGenera (biodiversity_of (ResultsArray survey))
     = [''Thunnus (2)'', ''Sardinella (1)'', ''Stolephorus (1)'']"
proof -
  have names: "ordinary_name ''Clupeidae''" "ordinary_name ''Scombridae''"
    "ordinary_name ''Engraulidae''" "ordinary_name ''Carangidae''"
    "ordinary_name ''Sardinella''" "ordinary_name ''Thunnus''"
    "ordinary_name ''Stolephorus''" "ordinary_name ''Caranx''"
    by code_simp+
  have h: "\<forall>r \<in> set (results_of (ResultsArray survey)).
       (\<forall>n. family r = Some n \<longrightarrow> ordinary_name n)
     \<and> (\<forall>n. genus r = Some n \<longrightarrow> ordinary_name n)"
    using names by (simp add: results_of_def survey_def obis_sample_def)
  from top_families_and_genera [OF h]
  obtain rankedFamilies rankedGenera
    where ranked: "topFamilies (biodiversity_of (ResultsArray survey))
                     = map fmt_entry (take 3 rankedFamilies)"
      "topGenera (biodiversity_of (ResultsArray survey)) = map fmt_entry (take 3 rankedGenera)"
    by blast
  have f: "topFamilies (biodiversity_of (ResultsArray survey))
       = [''Scombridae (2)'', ''Clupeidae (1)'', ''Engraulidae (1)'']"
    by code_simp
  have g: "topGenera (biodiversity_of (ResultsArray survey))
       = [''Thunnus (2)'', ''Sardinella (1)'', ''Stolephorus (1)'']"
    by code_simp
  show ?thesis
    using ranked f g by simp
qed

text \<open>
  C5 as stated fails when names are array indices: of the families \<^verbatim>\<open>"2"\<close> and \<^verbatim>\<open>"1"\<close>,
  met in this order and once each, \<^verbatim>\<open>Object.entries\<close> lists \<^verbatim>\<open>"1"\<close> first, and so does the
  result.
\<close>

theorem top_families_counterexample:
  "filter_Boolean (map family (results_of (ResultsArray numeric_families))) = [''2'', ''1'']
   \<and> topFamilies (biodiversity_of (ResultsArray numeric_families)) = [''1 (1)'', ''2 (1)'']"
  by code_simp


end
